theory Spec2Isabelle
  imports Main "HOL-Library.Word"
begin

unbundle bit_operations_syntax

section \<open>Values of the Go program\<close>

text \<open>
  A Go \<^verbatim>\<open>string\<close> is a sequence of bytes and is modelled as a \<^typ>\<open>string\<close>
  (one \<^typ>\<open>char\<close> per byte); a \<^verbatim>\<open>[]byte\<close> is a list of 8-bit words. The
  conversions \<^verbatim>\<open>[]byte(s)\<close> and \<^verbatim>\<open>string(b)\<close> copy the bytes.
  Go's \<^verbatim>\<open>int\<close> and \<^verbatim>\<open>int64\<close> are 64-bit words read as two's complement
  (a 64-bit target is assumed).
\<close>

type_synonym byte = "8 word"
type_synonym go_int = "64 word"

definition bytes_of_string :: "string \<Rightarrow> byte list" where
  "bytes_of_string s = map (\<lambda>c. of_nat (of_char c)) s"

definition string_of_bytes :: "byte list \<Rightarrow> string" where
  "string_of_bytes b = map (\<lambda>v. char_of (unat v)) b"

text \<open>
  The error values the package can hand back, and the run-time panics its statements
  can raise. \<open>InvalidByteError\<close> and \<open>ErrLength\<close> are the two errors of
  \<^verbatim>\<open>encoding/hex\<close>, \<open>KeySizeError\<close> is the error of \<^verbatim>\<open>aes.NewCipher\<close>,
  \<open>ErrorsNew\<close> is \<^verbatim>\<open>errors.New\<close> with its message, \<open>JSONError\<close> stands for
  any error of \<^verbatim>\<open>encoding/json\<close> and \<open>RandReadError\<close> for a failure of
  \<^verbatim>\<open>crypto/rand\<close>.
\<close>

datatype err =
    InvalidByteError char
  | ErrLength
  | KeySizeError nat
  | ErrorsNew string
  | JSONError string
  | RandReadError

datatype panic =
    MakesliceLenOutOfRange
  | NewCTRIVLength
  | IntnInvalidArgument
  | XORKeyStreamOutputSmaller

datatype 'a exec = Done 'a | Panic panic

section \<open>The container record (container.go, lines 21-60)\<close>

record Meta =
  Version :: string

record Derive =
  Salt :: string
  Iters :: go_int

record Encryption =
  IV :: string

record Data =
  EncryptedData :: string
  HMAC :: string

record Container =
  ContainerMeta :: Meta
  DeriveInfo :: Derive
  EncryptionInfo :: Encryption
  ContainedData :: Data

definition SetContainerMeta :: "string \<Rightarrow> Container \<Rightarrow> Container" where
  "SetContainerMeta version c = c\<lparr>ContainerMeta := \<lparr>Version = version\<rparr>\<rparr>"

definition SetDeriveInfo :: "string \<Rightarrow> go_int \<Rightarrow> Container \<Rightarrow> Container" where
  "SetDeriveInfo salt iters c = c\<lparr>DeriveInfo := \<lparr>Salt = salt, Iters = iters\<rparr>\<rparr>"

definition SetEncryptionInfo :: "string \<Rightarrow> Container \<Rightarrow> Container" where
  "SetEncryptionInfo iv c = c\<lparr>EncryptionInfo := \<lparr>IV = iv\<rparr>\<rparr>"

definition SetContainedData :: "string \<Rightarrow> string \<Rightarrow> Container \<Rightarrow> Container" where
  "SetContainedData encryptedData hmac c =
     c\<lparr>ContainedData := \<lparr>EncryptedData = encryptedData, HMAC = hmac\<rparr>\<rparr>"

text \<open>\<^verbatim>\<open>&Container{}\<close>: every string empty, the count zero.\<close>

definition zeroContainer :: Container where
  "zeroContainer =
     \<lparr>ContainerMeta = \<lparr>Version = []\<rparr>,
      DeriveInfo = \<lparr>Salt = [], Iters = 0\<rparr>,
      EncryptionInfo = \<lparr>IV = []\<rparr>,
      ContainedData = \<lparr>EncryptedData = [], HMAC = []\<rparr>\<rparr>"

section \<open>Hexadecimal text (Go's encoding/hex, as called by the package)\<close>

text \<open>
  \<^verbatim>\<open>hex.EncodeToString\<close> writes, for each byte \<open>v\<close>, the characters
  \<^verbatim>\<open>hextable[v>>4]\<close> and \<^verbatim>\<open>hextable[v&0x0f]\<close>.
\<close>

definition hextable :: string where
  "hextable = ''0123456789abcdef''"

definition hex_EncodeToString :: "byte list \<Rightarrow> string" where
  "hex_EncodeToString src =
     concat (map (\<lambda>v. [hextable ! unat (drop_bit 4 v), hextable ! unat (v AND 0x0f)]) src)"

text \<open>
  \<^verbatim>\<open>reverseHexTable\<close> maps \<^verbatim>\<open>0-9\<close>, \<^verbatim>\<open>a-f\<close> and \<^verbatim>\<open>A-F\<close> to their values and
  every other byte to \<^verbatim>\<open>0xff\<close>.
\<close>

definition reverseHexTable :: "char \<Rightarrow> byte" where
  "reverseHexTable c =
     (let n = (of_char c :: nat) in
      if 48 \<le> n \<and> n \<le> 57 then of_nat (n - 48)
      else if 97 \<le> n \<and> n \<le> 102 then of_nat (n - 87)
      else if 65 \<le> n \<and> n \<le> 70 then of_nat (n - 55)
      else 0xff)"

text \<open>
  \<^verbatim>\<open>hex.DecodeString\<close>: the loop of \<^verbatim>\<open>hex.Decode\<close> reads two characters at a
  time and stops at the first one that is no hexadecimal digit; a single character left
  over is reported as invalid when it is no digit and as \<^verbatim>\<open>ErrLength\<close> otherwise.
  The bytes decoded before an error are dropped, since no caller in the package reads
  them.
\<close>

fun hex_DecodeString :: "string \<Rightarrow> err + byte list" where
  "hex_DecodeString [] = Inr []"
| "hex_DecodeString [p] =
     (if reverseHexTable p > 0x0f then Inl (InvalidByteError p) else Inl ErrLength)"
| "hex_DecodeString (p # q # rest) =
     (let a = reverseHexTable p; b = reverseHexTable q in
      if a > 0x0f then Inl (InvalidByteError p)
      else if b > 0x0f then Inl (InvalidByteError q)
      else (case hex_DecodeString rest of
              Inl e \<Rightarrow> Inl e
            | Inr bs \<Rightarrow> Inr ((push_bit 4 a OR b) # bs)))"

text \<open>\<^verbatim>\<open>decodeHex\<close> (lines 168-174) passes the result of the library through.\<close>

definition decodeHex :: "string \<Rightarrow> err + byte list" where
  "decodeHex hexStr = (case hex_DecodeString hexStr of Inl e \<Rightarrow> Inl e | Inr bytes \<Rightarrow> Inr bytes)"

section \<open>The library routines the package calls\<close>

text \<open>
  The bodies of the cryptographic, random-number and JSON routines are not part of the
  package. They are parameters of the model:
  \<^item> \<open>sha256_Sum256\<close> is \<^verbatim>\<open>sha256.Sum256\<close>;
  \<^item> \<open>pbkdf2_Key pw salt iter\<close> is \<^verbatim>\<open>pbkdf2.Key(pw, salt, iter, 32, sha256.New)\<close>;
  \<^item> \<open>ctr_keystream key iv i\<close> is byte \<open>i\<close> of the key stream of AES in counter
    mode under \<open>key\<close>, started at \<open>iv\<close>;
  \<^item> \<open>rand_Intn seed n\<close> is \<^verbatim>\<open>Intn(n)\<close> of a \<^verbatim>\<open>math/rand\<close> generator seeded
    with \<open>seed\<close>, for \<open>n > 0\<close>;
  \<^item> \<open>json_Marshal\<close> and \<open>json_Unmarshal\<close> are \<^verbatim>\<open>json.Marshal\<close> of a
    \<^verbatim>\<open>*Container\<close> and \<^verbatim>\<open>json.Unmarshal\<close> into one.
\<close>

record libs =
  sha256_Sum256 :: "byte list \<Rightarrow> byte list"
  pbkdf2_Key :: "byte list \<Rightarrow> byte list \<Rightarrow> go_int \<Rightarrow> byte list"
  ctr_keystream :: "byte list \<Rightarrow> byte list \<Rightarrow> nat \<Rightarrow> byte"
  rand_Intn :: "go_int \<Rightarrow> go_int \<Rightarrow> go_int"
  json_Marshal :: "Container \<Rightarrow> err + string"
  json_Unmarshal :: "string \<Rightarrow> err + Container"

text \<open>
  What one run reads from outside: the outcome of the two reads of \<^verbatim>\<open>crypto/rand\<close>
  (\<open>None\<close> when the read fails, otherwise the byte delivered at each position of the
  buffer), the clock, and the time the benchmark loop was measured to take.
\<close>

record env =
  salt_read :: "(nat \<Rightarrow> byte) option"
  iv_read :: "(nat \<Rightarrow> byte) option"
  now_UnixNano :: go_int
  elapsed_Nanoseconds :: go_int

definition saltLen :: nat where "saltLen = 12"
definition ivLen :: nat where "ivLen = 16"
definition aes_BlockSize :: nat where "aes_BlockSize = 16"

text \<open>\<^verbatim>\<open>aes.NewCipher\<close> accepts keys of 16, 24 or 32 bytes; the block is its key.\<close>

definition aes_NewCipher :: "byte list \<Rightarrow> err + byte list" where
  "aes_NewCipher key =
     (let k = length key in
      if k = 16 \<or> k = 24 \<or> k = 32 then Inr key else Inl (KeySizeError k))"

text \<open>\<^verbatim>\<open>cipher.NewCTR\<close> panics unless the IV has the length of a block.\<close>

definition cipher_NewCTR :: "libs \<Rightarrow> byte list \<Rightarrow> byte list \<Rightarrow> (nat \<Rightarrow> byte) exec" where
  "cipher_NewCTR L block iv =
     (if length iv \<noteq> aes_BlockSize then Panic NewCTRIVLength
      else Done (ctr_keystream L block iv))"

text \<open>
  \<^verbatim>\<open>stream.XORKeyStream(dst, src)\<close> on a fresh stream: it panics when \<open>dst\<close> is
  shorter than \<open>src\<close>, and otherwise overwrites the first \<open>len(src)\<close> bytes of
  \<open>dst\<close> with \<open>src\<close> XOR key stream. The result is the new content of \<open>dst\<close>.
\<close>

definition xor_stream :: "(nat \<Rightarrow> byte) \<Rightarrow> byte list \<Rightarrow> byte list" where
  "xor_stream stream src = map (\<lambda>i. (src ! i) XOR stream i) [0..<length src]"

definition XORKeyStream :: "(nat \<Rightarrow> byte) \<Rightarrow> byte list \<Rightarrow> byte list \<Rightarrow> byte list exec" where
  "XORKeyStream stream dst src =
     (if length dst < length src then Panic XORKeyStreamOutputSmaller
      else Done (xor_stream stream src @ drop (length src) dst))"

section \<open>Random bytes and the iteration count (lines 62-91)\<close>

definition generateRandomBytes :: "(nat \<Rightarrow> byte) option \<Rightarrow> nat \<Rightarrow> err + byte list" where
  "generateRandomBytes rd len =
     (case rd of
        None \<Rightarrow> Inl RandReadError
      | Some buf \<Rightarrow> Inr (map buf [0..<len]))"

text \<open>
  \<^verbatim>\<open>workload\<close> doubles a counter \<open>iterations\<close> times and returns the time that
  took; the counter is dropped. The measured time comes from the environment.
\<close>

definition workload :: "env \<Rightarrow> go_int \<Rightarrow> go_int" where
  "workload E iterations = elapsed_Nanoseconds E"

text \<open>\<^verbatim>\<open>Intn(n)\<close> panics when \<open>n \<le> 0\<close>; the comparisons are signed.\<close>

definition generateRandomNumber :: "libs \<Rightarrow> env \<Rightarrow> go_int exec" where
  "generateRandomNumber L E =
     (let iterations = 130000;
          elapsed = workload E iterations;
          seed = now_UnixNano E + elapsed;
          n = elapsed + 1
      in if n \<le>s 0 then Panic IntnInvalidArgument
         else (let randomNumber = rand_Intn L seed n
               in if randomNumber <s 4096 then Done 4096 else Done randomNumber))"

section \<open>Sealing and opening (lines 93-166)\<close>

text \<open>
  Both functions return a Go pair \<^verbatim>\<open>(string, error)\<close> or panic. Beside the result the
  model keeps the list of calls made to the cryptographic routines, in program order:
  the iteration count handed to \<^verbatim>\<open>pbkdf2.Key\<close>, and for \<^verbatim>\<open>XORKeyStream\<close> the
  first position and the number of bytes of the payload buffer that the stream is
  applied to.
\<close>

datatype event =
    CallSum256
  | CallPBKDF2 go_int
  | CallNewCipher
  | CallNewCTR
  | CallXORKeyStream nat nat

type_synonym go_result = "(string \<times> err option) exec \<times> event list"

text \<open>
  \<open>sealContainer\<close> is \<^verbatim>\<open>CreateContainer\<close> up to the filled-in record (lines 94-120);
  \<open>CreateContainer\<close> serialises that record (lines 122-126).
\<close>

definition sealContainer ::
  "libs \<Rightarrow> env \<Rightarrow> string \<Rightarrow> string \<Rightarrow> (err + Container) exec \<times> event list" where
  "sealContainer L E plaintext password =
     (let hmac = sha256_Sum256 L (bytes_of_string plaintext); t0 = [CallSum256] in
      case generateRandomBytes (salt_read E) saltLen of
        Inl e \<Rightarrow> (Done (Inl e), t0)
      | Inr salt \<Rightarrow>
      (case generateRandomNumber L E of
        Panic p \<Rightarrow> (Panic p, t0)
      | Done iterCount \<Rightarrow>
      (case generateRandomBytes (iv_read E) ivLen of
        Inl e \<Rightarrow> (Done (Inl e), t0)
      | Inr iv \<Rightarrow>
      (let dk = pbkdf2_Key L (bytes_of_string password) salt iterCount;
           t1 = t0 @ [CallPBKDF2 iterCount, CallNewCipher] in
       case aes_NewCipher dk of
        Inl e \<Rightarrow> (Done (Inl e), t1)
      | Inr block \<Rightarrow>
      (let ciphertext = replicate (aes_BlockSize + length plaintext) (0 :: byte);
           t2 = t1 @ [CallNewCTR] in
       case cipher_NewCTR L block iv of
        Panic p \<Rightarrow> (Panic p, t2)
      | Done stream \<Rightarrow>
      (let t3 = t2 @ [CallXORKeyStream aes_BlockSize (length plaintext)] in
       case XORKeyStream stream (drop aes_BlockSize ciphertext) (bytes_of_string plaintext) of
        Panic p \<Rightarrow> (Panic p, t3)
      | Done written \<Rightarrow>
      (let ciphertext = take aes_BlockSize ciphertext @ written;
           container =
             SetContainedData (hex_EncodeToString ciphertext) (hex_EncodeToString hmac)
               (SetEncryptionInfo (hex_EncodeToString iv)
                 (SetDeriveInfo (hex_EncodeToString salt) iterCount
                   (SetContainerMeta ''v1.0'' zeroContainer)))
       in (Done (Inr container), t3))))))))"

definition CreateContainer :: "libs \<Rightarrow> env \<Rightarrow> string \<Rightarrow> string \<Rightarrow> go_result" where
  "CreateContainer L E plaintext password =
     (case sealContainer L E plaintext password of
        (Panic p, t) \<Rightarrow> (Panic p, t)
      | (Done (Inl e), t) \<Rightarrow> (Done ([], Some e), t)
      | (Done (Inr container), t) \<Rightarrow>
          (case json_Marshal L container of
             Inl e \<Rightarrow> (Done ([], Some e), t)
           | Inr b \<Rightarrow> (Done (b, None), t)))"

text \<open>
  \<open>openContainer\<close> is \<^verbatim>\<open>DecryptContainer\<close> from the parsed record on (lines 136-165);
  \<open>DecryptContainer\<close> parses the text first (lines 130-134). The length handed to
  \<^verbatim>\<open>make\<close> at line 156 is negative when the payload has fewer bytes than a block,
  and \<^verbatim>\<open>make\<close> then panics.
\<close>

definition openContainer :: "libs \<Rightarrow> Container \<Rightarrow> string \<Rightarrow> go_result" where
  "openContainer L container password =
     (case hex_DecodeString (Salt (DeriveInfo container)) of
        Inl e \<Rightarrow> (Done ([], Some e), [])
      | Inr salt \<Rightarrow>
      (case hex_DecodeString (EncryptedData (ContainedData container)) of
        Inl e \<Rightarrow> (Done ([], Some e), [])
      | Inr encrypted \<Rightarrow>
      (case hex_DecodeString (IV (EncryptionInfo container)) of
        Inl e \<Rightarrow> (Done ([], Some e), [])
      | Inr iv \<Rightarrow>
      (let dk = pbkdf2_Key L (bytes_of_string password) salt (Iters (DeriveInfo container));
           t1 = [CallPBKDF2 (Iters (DeriveInfo container)), CallNewCipher] in
       case aes_NewCipher dk of
        Inl e \<Rightarrow> (Done ([], Some e), t1)
      | Inr block \<Rightarrow>
      (if length encrypted < aes_BlockSize then (Panic MakesliceLenOutOfRange, t1)
       else
      (let plaintext = replicate (length encrypted - aes_BlockSize) (0 :: byte);
           t2 = t1 @ [CallNewCTR] in
       case cipher_NewCTR L block iv of
        Panic p \<Rightarrow> (Panic p, t2)
      | Done stream \<Rightarrow>
      (let t3 = t2 @ [CallXORKeyStream aes_BlockSize (length encrypted - aes_BlockSize)] in
       case XORKeyStream stream plaintext (drop aes_BlockSize encrypted) of
        Panic p \<Rightarrow> (Panic p, t3)
      | Done plaintext \<Rightarrow>
      (let check = sha256_Sum256 L plaintext; t4 = t3 @ [CallSum256] in
       if hex_EncodeToString check \<noteq> HMAC (ContainedData container)
       then (Done ([], Some (ErrorsNew ''HMAC mismatch'')), t4)
       else (Done (string_of_bytes plaintext, None), t4)))))))))"

definition DecryptContainer :: "libs \<Rightarrow> string \<Rightarrow> string \<Rightarrow> go_result" where
  "DecryptContainer L containerJSON password =
     (case json_Unmarshal L containerJSON of
        Inl e \<Rightarrow> (Done ([], Some e), [])
      | Inr container \<Rightarrow> openContainer L container password)"

section \<open>Notions used in the statements\<close>

definition is_hex_digit :: "char \<Rightarrow> bool" where
  "is_hex_digit c = (c \<in> set ''0123456789abcdefABCDEF'')"

text \<open>A text that is no hexadecimal encoding: odd length, or some character that is no digit.\<close>

definition malformed_hex :: "string \<Rightarrow> bool" where
  "malformed_hex s = (odd (length s) \<or> list_ex (\<lambda>c. \<not> is_hex_digit c) s)"

definition is_decode_error :: "err \<Rightarrow> bool" where
  "is_decode_error e = (case e of InvalidByteError c \<Rightarrow> True | ErrLength \<Rightarrow> True | _ \<Rightarrow> False)"

text \<open>Flipping bits of one byte: XOR with a mask other than zero.\<close>

definition flip_byte :: "nat \<Rightarrow> byte \<Rightarrow> byte list \<Rightarrow> byte list" where
  "flip_byte i m bs = bs[i := (bs ! i) XOR m]"

text \<open>
  The JSON text \<open>r\<close> is read back as the record that sealing filled in. This is what
  \<^verbatim>\<open>encoding/json\<close> does with the text it wrote for such a record.
\<close>

definition reads_back :: "libs \<Rightarrow> env \<Rightarrow> string \<Rightarrow> string \<Rightarrow> string \<Rightarrow> bool" where
  "reads_back L E p pw r =
     (case sealContainer L E p pw of
        (Done (Inr c), t) \<Rightarrow> json_Unmarshal L r = Inr c
      | _ \<Rightarrow> False)"

section \<open>A small instance of the library and of the environment\<close>

text \<open>
  The closed examples below run the model on an instance whose routines are easy to
  compute by hand: the digest is 31 zero bytes followed by the sum of the message bytes,
  the derived key is 32 copies of the length of the password, byte \<open>i\<close> of the key
  stream is the sum of the key bytes plus \<open>7 * i + 3\<close>, and \<^verbatim>\<open>Intn\<close> answers 5000. The JSON routines write and read
  the layout that \<^verbatim>\<open>json.Marshal\<close> produces for a \<^verbatim>\<open>Container\<close> whose strings need
  no escaping; \<^verbatim>\<open>{}\<close> is read as the zero record, as \<^verbatim>\<open>json.Unmarshal\<close> reads it.
\<close>

fun decimal :: "nat \<Rightarrow> string" where
  "decimal n =
     (if n < 10 then [char_of (48 + n)]
      else decimal (n div 10) @ [char_of (48 + n mod 10)])"

fun strip_prefix :: "string \<Rightarrow> string \<Rightarrow> string option" where
  "strip_prefix [] s = Some s"
| "strip_prefix (p # ps) [] = None"
| "strip_prefix (p # ps) (c # cs) = (if p = c then strip_prefix ps cs else None)"

definition number :: "string \<Rightarrow> nat" where
  "number ds = foldl (\<lambda>a d. 10 * a + (of_char d - 48)) 0 ds"

definition is_digit :: "char \<Rightarrow> bool" where
  "is_digit c = (48 \<le> (of_char c :: nat) \<and> (of_char c :: nat) \<le> 57)"

definition demo_keys :: "string list" where
  \<open>demo_keys =
     [''{"ContainerMeta":{"Version":"'', ''"},"DeriveInfo":{"Salt":"'', ''","Iters":'',
      ''},"EncryptionInfo":{"IV":"'', ''"},"ContainedData":{"EncryptedData":"'',
      ''","HMAC":"'', ''"}}'']\<close>

definition demo_json ::
  "string \<Rightarrow> string \<Rightarrow> string \<Rightarrow> string \<Rightarrow> string \<Rightarrow> string \<Rightarrow> string" where
  "demo_json v salt iters iv enc h =
     demo_keys ! 0 @ v @ demo_keys ! 1 @ salt @ demo_keys ! 2 @ iters @ demo_keys ! 3 @ iv
       @ demo_keys ! 4 @ enc @ demo_keys ! 5 @ h @ demo_keys ! 6"

definition demo_Marshal :: "Container \<Rightarrow> err + string" where
  "demo_Marshal c =
     Inr (demo_json (Version (ContainerMeta c)) (Salt (DeriveInfo c))
            (decimal (unat (Iters (DeriveInfo c)))) (IV (EncryptionInfo c))
            (EncryptedData (ContainedData c)) (HMAC (ContainedData c)))"

fun fields :: "string list \<Rightarrow> string \<Rightarrow> string list option" where
  "fields [] s = (if s = [] then Some [] else None)"
| "fields (k # ks) s =
     (case strip_prefix k s of
        None \<Rightarrow> None
      | Some s1 \<Rightarrow>
          (let inside = (\<lambda>c. c \<noteq> CHR 0x22 \<and> c \<noteq> CHR ''}'') in
           case fields ks (dropWhile inside s1) of
             None \<Rightarrow> None
           | Some fs \<Rightarrow> Some (takeWhile inside s1 # fs)))"

definition demo_Unmarshal :: "string \<Rightarrow> err + Container" where
  "demo_Unmarshal s =
     (if s = ''{}'' then Inr zeroContainer
      else case fields demo_keys s of
        Some [v, salt, it, iv, enc, h, _] \<Rightarrow>
          if list_all is_digit it \<and> it \<noteq> [] then
            Inr \<lparr>ContainerMeta = \<lparr>Version = v\<rparr>,
                 DeriveInfo = \<lparr>Salt = salt, Iters = of_nat (number it)\<rparr>,
                 EncryptionInfo = \<lparr>IV = iv\<rparr>,
                 ContainedData = \<lparr>EncryptedData = enc, HMAC = h\<rparr>\<rparr>
          else Inl (JSONError ''number'')
      | _ \<Rightarrow> Inl (JSONError ''syntax''))"

definition demo_libs :: libs where
  "demo_libs =
     \<lparr>sha256_Sum256 = (\<lambda>m. replicate 31 0 @ [sum_list m]),
      pbkdf2_Key = (\<lambda>pw salt iter. replicate 32 (of_nat (length pw))),
      ctr_keystream = (\<lambda>key iv i. sum_list key + of_nat (7 * i + 3)),
      rand_Intn = (\<lambda>seed n. 5000),
      json_Marshal = demo_Marshal,
      json_Unmarshal = demo_Unmarshal\<rparr>"

definition demo_env :: env where
  "demo_env =
     \<lparr>salt_read = Some (\<lambda>i. of_nat (i + 1)),
      iv_read = Some (\<lambda>i. of_nat (16 * i)),
      now_UnixNano = 1700000000000000000,
      elapsed_Nanoseconds = 50000\<rparr>"

text \<open>The record sealed from \<^verbatim>\<open>"hi"\<close> under \<^verbatim>\<open>"pw"\<close> in this instance, and its text.\<close>

definition demo_sealed :: Container where
  "demo_sealed =
     \<lparr>ContainerMeta = \<lparr>Version = ''v1.0''\<rparr>,
      DeriveInfo = \<lparr>Salt = ''0102030405060708090a0b0c'', Iters = 5000\<rparr>,
      EncryptionInfo = \<lparr>IV = ''00102030405060708090a0b0c0d0e0f0''\<rparr>,
      ContainedData =
        \<lparr>EncryptedData = ''000000000000000000000000000000002b23'',
         HMAC = ''00000000000000000000000000000000000000000000000000000000000000d1''\<rparr>\<rparr>"

text \<open>
  Texts of records in the layout above: the sealed record; the same record with the first
  payload byte, the first encrypted byte (position 16) and the first digest byte changed
  by one bit; a payload of 15 bytes; an iteration count of zero; fields that are no
  hexadecimal text; another version tag.
\<close>

definition demo_sealed_json :: string where
  "demo_sealed_json =
     demo_json ''v1.0'' ''0102030405060708090a0b0c'' ''5000'' ''00102030405060708090a0b0c0d0e0f0''
       ''000000000000000000000000000000002b23''
       ''00000000000000000000000000000000000000000000000000000000000000d1''"

definition demo_prefix_json :: string where
  "demo_prefix_json =
     demo_json ''v1.0'' ''0102030405060708090a0b0c'' ''5000'' ''00102030405060708090a0b0c0d0e0f0''
       ''010000000000000000000000000000002b23''
       ''00000000000000000000000000000000000000000000000000000000000000d1''"

definition demo_payload_json :: string where
  "demo_payload_json =
     demo_json ''v1.0'' ''0102030405060708090a0b0c'' ''5000'' ''00102030405060708090a0b0c0d0e0f0''
       ''000000000000000000000000000000002a23''
       ''00000000000000000000000000000000000000000000000000000000000000d1''"

definition demo_digest_json :: string where
  "demo_digest_json =
     demo_json ''v1.0'' ''0102030405060708090a0b0c'' ''5000'' ''00102030405060708090a0b0c0d0e0f0''
       ''000000000000000000000000000000002b23''
       ''01000000000000000000000000000000000000000000000000000000000000d1''"

definition demo_short_json :: string where
  "demo_short_json =
     demo_json ''v1.0'' ''0102030405060708090a0b0c'' ''5000'' ''00102030405060708090a0b0c0d0e0f0''
       ''000000000000000000000000000000''
       ''00000000000000000000000000000000000000000000000000000000000000d1''"

definition demo_iters0_json :: string where
  "demo_iters0_json =
     demo_json ''v1.0'' ''0102030405060708090a0b0c'' ''0'' ''00102030405060708090a0b0c0d0e0f0''
       ''000000000000000000000000000000002b23''
       ''00000000000000000000000000000000000000000000000000000000000000d1''"

definition demo_badhex_json :: string where
  "demo_badhex_json =
     demo_json ''v1.0'' ''0102030405060708090a0b0c'' ''5000'' ''0010203040506070809''
       ''00000000000000000000000000000000zz63''
       ''00000000000000000000000000000000000000000000000000000000000000d1''"

definition demo_relabelled_json :: string where
  "demo_relabelled_json =
     demo_json ''v7.3'' ''0102030405060708090a0b0c'' ''5000'' ''00102030405060708090a0b0c0d0e0f0''
       ''000000000000000000000000000000002b23''
       ''00000000000000000000000000000000000000000000000000000000000000d1''"

section \<open>Properties of the hexadecimal text\<close>

lemma nib_hi: "unat (drop_bit 4 (v::byte)) < 16"
proof -
  have "unat v < 256" using unsigned_less[of v, where 'a=nat] by simp
  then show ?thesis by (simp add: drop_bit_eq_div unat_div)
qed

lemma nib_lo: "unat ((v::byte) AND 0x0f) < 16"
proof -
  have "unat (v AND 15) \<le> unat (15 :: byte)"
    by (rule word_and_le1 [THEN word_le_nat_alt [THEN iffD1]])
  then show ?thesis by simp
qed

lemma below16: "n < 16 \<Longrightarrow> n \<in> {0,1,2,3,4,5,6,7,8,9,10,11,12,13,14,15::nat}"
  by simp arith

lemma rev_hex: "n < 16 \<Longrightarrow> reverseHexTable (hextable ! n) = of_nat n"
proof -
  assume "n < 16"
  then have "n \<in> {0,1,2,3,4,5,6,7,8,9,10,11,12,13,14,15}"
    by (rule below16)
  then show ?thesis
    by (auto simp add: hextable_def reverseHexTable_def Let_def)
qed

lemma m15: "(15::byte) = mask 4"
  by (simp add: mask_eq_exp_minus_1)

lemma byte_split: "push_bit 4 (drop_bit 4 v) OR (v AND 0x0f) = (v::byte)"
  unfolding m15
  by (rule bit_word_eqI) (auto simp add: bit_simps)

lemma hex_digit_nth: "n < 16 \<Longrightarrow> hextable ! n \<in> set hextable"
  by (rule nth_mem) (simp add: hextable_def)

lemma rev_hi: "reverseHexTable (hextable ! unat (drop_bit 4 (v::byte))) = drop_bit 4 v"
  by (simp add: rev_hex nib_hi)

lemma rev_lo: "reverseHexTable (hextable ! unat ((v::byte) AND 0x0f)) = v AND 0x0f"
  by (simp add: rev_hex nib_lo)

lemma nib_le_hi: "\<not> drop_bit 4 (v::byte) > 0x0f"
  using nib_hi[of v] by (simp add: word_less_nat_alt)

lemma nib_le_lo: "\<not> ((v::byte) AND 0x0f) > 0x0f"
  using nib_lo[of v] by (simp add: word_less_nat_alt)

text \<open>Decoding undoes encoding, so encoding is injective.\<close>

lemma hex_roundtrip: "hex_DecodeString (hex_EncodeToString bs) = Inr bs"
  by (induction bs)
     (simp_all add: hex_EncodeToString_def rev_hi rev_lo nib_le_hi nib_le_lo byte_split Let_def)

lemma hex_length: "length (hex_EncodeToString bs) = 2 * length bs"
  by (induction bs) (simp_all add: hex_EncodeToString_def)

lemma hex_chars: "set (hex_EncodeToString bs) \<subseteq> set hextable"
  by (induction bs) (simp_all add: hex_EncodeToString_def hex_digit_nth nib_hi nib_lo)

lemma hex_inj: "hex_EncodeToString a = hex_EncodeToString b \<Longrightarrow> a = b"
  by (metis hex_roundtrip sum.inject(2))

text \<open>The reverse table marks exactly the characters that are no digits.\<close>

lemma digit_codes:
  "map char_of [48,49,50,51,52,53,54,55,56,57,97,98,99,100,101,102,65,66,67,68,69,70::nat]
     = ''0123456789abcdefABCDEF''"
  by code_simp

lemma in_ranges:
  fixes n :: nat
  assumes "48 \<le> n \<and> n \<le> 57 \<or> 97 \<le> n \<and> n \<le> 102 \<or> 65 \<le> n \<and> n \<le> 70"
  shows "n \<in> set [48,49,50,51,52,53,54,55,56,57,97,98,99,100,101,102,65,66,67,68,69,70]"
  using assms by simp arith

lemma range_digit:
  fixes n :: nat
  assumes "48 \<le> n \<and> n \<le> 57 \<or> 97 \<le> n \<and> n \<le> 102 \<or> 65 \<le> n \<and> n \<le> 70"
  shows "is_hex_digit (char_of n)"
proof -
  have "char_of n \<in> set (map char_of
          [48,49,50,51,52,53,54,55,56,57,97,98,99,100,101,102,65,66,67,68,69,70::nat])"
    using in_ranges[OF assms] by (simp only: set_map) (rule imageI)
  then show ?thesis
    by (simp only: digit_codes is_hex_digit_def)
qed

lemma rev_digit: "is_hex_digit c \<Longrightarrow> \<not> reverseHexTable c > 0x0f"
  unfolding is_hex_digit_def
  by (simp, elim disjE) (simp_all add: reverseHexTable_def)

lemma rev_nondigit:
  assumes "\<not> is_hex_digit c"
  shows "reverseHexTable c = 0xff"
proof -
  have "\<not> (48 \<le> (of_char c :: nat) \<and> (of_char c :: nat) \<le> 57 \<or>
           97 \<le> (of_char c :: nat) \<and> (of_char c :: nat) \<le> 102 \<or>
           65 \<le> (of_char c :: nat) \<and> (of_char c :: nat) \<le> 70)"
    using range_digit[of "of_char c"] assms by (simp only: char_of_char) blast
  then show ?thesis
    unfolding reverseHexTable_def Let_def by (simp only: de_Morgan_disj if_False)
qed

lemma rev_invalid_iff: "reverseHexTable c > 0x0f \<longleftrightarrow> \<not> is_hex_digit c"
  using rev_digit[of c] rev_nondigit[of c] by auto

lemma decode_fails_iff: "(\<exists>e. hex_DecodeString s = Inl e) \<longleftrightarrow> malformed_hex s"
  by (induction s rule: induct_list012)
     (auto simp add: malformed_hex_def rev_invalid_iff Let_def split: sum.splits)

lemma decode_error_kind: "hex_DecodeString s = Inl e \<Longrightarrow> is_decode_error e"
  by (induction s arbitrary: e rule: induct_list012)
     (auto simp add: is_decode_error_def Let_def split: sum.splits if_splits)

section \<open>Bytes, the key stream and the stages of opening\<close>

lemma string_bytes_roundtrip: "string_of_bytes (bytes_of_string s) = s"
proof -
  have "char_of (unat (of_nat (of_char c) :: byte)) = c" for c
    by (simp add: unat_of_nat)
  then show ?thesis
    by (simp add: string_of_bytes_def bytes_of_string_def comp_def)
qed

lemma length_bytes_of_string: "length (bytes_of_string s) = length s"
  by (simp add: bytes_of_string_def)

lemma length_xor_stream: "length (xor_stream st src) = length src"
  by (simp add: xor_stream_def)

lemma nth_xor_stream: "i < length src \<Longrightarrow> xor_stream st src ! i = (src ! i) XOR st i"
  by (simp add: xor_stream_def)

lemma xor_stream_twice: "xor_stream st (xor_stream st src) = src"
  by (rule nth_equalityI) (simp_all add: length_xor_stream nth_xor_stream xor.assoc)

lemma xor_stream_flip:
  "xor_stream st (flip_byte i m src) = flip_byte i m (xor_stream st src)"
proof (cases "i < length src")
  case True
  then show ?thesis
    by (intro nth_equalityI)
       (auto simp add: flip_byte_def length_xor_stream nth_xor_stream nth_list_update
          xor.assoc xor.commute xor.left_commute)
next
  case False
  then show ?thesis
    by (simp add: flip_byte_def length_xor_stream list_update_beyond)
qed

text \<open>openContainer once the three fields are decoded.\<close>

lemma openContainer_decoded:
  assumes "hex_DecodeString (Salt (DeriveInfo c)) = Inr salt"
    and "hex_DecodeString (EncryptedData (ContainedData c)) = Inr enc"
    and "hex_DecodeString (IV (EncryptionInfo c)) = Inr iv"
  shows "openContainer L c pw =
    (let dk = pbkdf2_Key L (bytes_of_string pw) salt (Iters (DeriveInfo c));
         t1 = [CallPBKDF2 (Iters (DeriveInfo c)), CallNewCipher];
         plain = xor_stream (ctr_keystream L dk iv) (drop 16 enc);
         t4 = t1 @ [CallNewCTR, CallXORKeyStream 16 (length enc - 16), CallSum256]
     in if \<not> (length dk = 16 \<or> length dk = 24 \<or> length dk = 32)
          then (Done ([], Some (KeySizeError (length dk))), t1)
        else if length enc < 16 then (Panic MakesliceLenOutOfRange, t1)
        else if length iv \<noteq> 16 then (Panic NewCTRIVLength, t1 @ [CallNewCTR])
        else if hex_EncodeToString (sha256_Sum256 L plain) \<noteq> HMAC (ContainedData c)
          then (Done ([], Some (ErrorsNew ''HMAC mismatch'')), t4)
        else (Done (string_of_bytes plain, None), t4))"
  by (simp add: openContainer_def assms aes_NewCipher_def cipher_NewCTR_def XORKeyStream_def
        Let_def aes_BlockSize_def)

lemma DecryptContainer_parsed:
  "json_Unmarshal L j = Inr c \<Longrightarrow> DecryptContainer L j pw = openContainer L c pw"
  by (simp add: DecryptContainer_def)

text \<open>
  Claim C10. \<^verbatim>\<open>DecryptContainer\<close> never reads \<^verbatim>\<open>ContainerMeta.Version\<close>: two texts
  that parse to records differing only in the version tag give the same result, the same
  error outcome and the same calls, under every password.
\<close>

theorem version_not_read:
  assumes "json_Unmarshal L j = Inr c"
    and "json_Unmarshal L j' = Inr (c\<lparr>ContainerMeta := \<lparr>Version = v\<rparr>\<rparr>)"
  shows "DecryptContainer L j' pw = DecryptContainer L j pw"
proof -
  have "openContainer L (c\<lparr>ContainerMeta := \<lparr>Version = v\<rparr>\<rparr>) pw = openContainer L c pw"
    by (simp add: openContainer_def Let_def
          cong del: sum.case_cong_weak exec.case_cong_weak if_weak_cong)
  then show ?thesis
    by (simp add: DecryptContainer_parsed[OF assms(1)] DecryptContainer_parsed[OF assms(2)])
qed

lemma openContainer_bad_hex:
  assumes "malformed_hex (Salt (DeriveInfo c)) \<or> malformed_hex (EncryptedData (ContainedData c))
           \<or> malformed_hex (IV (EncryptionInfo c))"
  shows "\<exists>e. is_decode_error e \<and> openContainer L c pw = (Done ([], Some e), [])"
proof -
  from assms have "(\<exists>e. hex_DecodeString (Salt (DeriveInfo c)) = Inl e)
     \<or> (\<exists>e. hex_DecodeString (EncryptedData (ContainedData c)) = Inl e)
     \<or> (\<exists>e. hex_DecodeString (IV (EncryptionInfo c)) = Inl e)"
    by (simp only: decode_fails_iff)
  then show ?thesis
    by (auto simp add: openContainer_def dest: decode_error_kind split: sum.splits)
qed

text \<open>
  Claim C5. When the \<^verbatim>\<open>Salt\<close>, \<^verbatim>\<open>EncryptedData\<close> or \<^verbatim>\<open>IV\<close> field of the parsed
  record has odd length or a character that is no hexadecimal digit,
  \<^verbatim>\<open>DecryptContainer\<close> returns the empty string with one of the two errors of
  \<^verbatim>\<open>hex.DecodeString\<close>; it does not panic, and the list of calls to the cryptographic
  routines is empty: no key derivation, cipher or digest call has been made.
\<close>

theorem decode_error_before_crypto:
  assumes "json_Unmarshal L j = Inr c"
    and "malformed_hex (Salt (DeriveInfo c)) \<or> malformed_hex (EncryptedData (ContainedData c))
           \<or> malformed_hex (IV (EncryptionInfo c))"
  shows "\<exists>e. is_decode_error e \<and> DecryptContainer L j pw = (Done ([], Some e), [])"
  using openContainer_bad_hex[OF assms(2)] by (simp add: DecryptContainer_parsed[OF assms(1)])

text \<open>
  Claim C6. Once the record is parsed, its three fields decoded, the cipher built and the
  payload decrypted, the outcome is decided by the comparison at line 161 alone: when the
  hexadecimal text of the recomputed digest differs from the stored \<^verbatim>\<open>HMAC\<close> field,
  the result is the empty string with the error \<^verbatim>\<open>HMAC mismatch\<close>; when they are
  equal, the result is the decrypted bytes with no error.
\<close>

theorem digest_comparison:
  assumes "json_Unmarshal L j = Inr c"
    and "hex_DecodeString (Salt (DeriveInfo c)) = Inr salt"
    and "hex_DecodeString (EncryptedData (ContainedData c)) = Inr enc"
    and "hex_DecodeString (IV (EncryptionInfo c)) = Inr iv"
    and "aes_NewCipher (pbkdf2_Key L (bytes_of_string pw) salt (Iters (DeriveInfo c))) = Inr block"
    and "aes_BlockSize \<le> length enc"
    and "length iv = aes_BlockSize"
    and "decrypted = xor_stream (ctr_keystream L block iv) (drop aes_BlockSize enc)"
  shows "fst (DecryptContainer L j pw) =
           (if hex_EncodeToString (sha256_Sum256 L decrypted) \<noteq> HMAC (ContainedData c)
            then Done ([], Some (ErrorsNew ''HMAC mismatch''))
            else Done (string_of_bytes decrypted, None))"
  using assms(5-8)
  by (auto simp add: DecryptContainer_parsed[OF assms(1)] openContainer_decoded[OF assms(2-4)]
        Let_def aes_NewCipher_def aes_BlockSize_def split: if_splits)

text \<open>
  Claim C8. \<^verbatim>\<open>generateRandomNumber\<close> returns a count of at least 4096 and does not
  panic, whatever \<^verbatim>\<open>Intn\<close> draws and whatever the clock reads, for every elapsed time
  the benchmark can measure: a duration that is not negative and below the largest
  \<^verbatim>\<open>int64\<close> (where \<^verbatim>\<open>elapsed + 1\<close> would wrap around).
\<close>

theorem calibration_floor:
  assumes "0 \<le>s elapsed_Nanoseconds E" and "elapsed_Nanoseconds E \<noteq> 0x7FFFFFFFFFFFFFFF"
  shows "\<exists>k. generateRandomNumber L E = Done k \<and> 4096 \<le>s k"
proof -
  let ?e = "elapsed_Nanoseconds E"
  have nonneg: "0 \<le> sint ?e" using assms(1) by (simp add: word_sle_eq)
  have ne: "sint ?e \<noteq> 9223372036854775807"
  proof
    assume a: "sint ?e = 9223372036854775807"
    have "?e = 0x7FFFFFFFFFFFFFFF"
      using a by (simp add: word_eq_iff_signed[where 'a=int])
    with assms(2) show False by simp
  qed
  have lt: "sint ?e < 9223372036854775808" using sint_lt[of ?e] by simp
  have "sint (?e + 1) = signed_take_bit 63 (sint ?e + 1)"
    by (simp add: sint_word_add)
  also have "\<dots> = sint ?e + 1"
    using nonneg ne lt by (intro signed_take_bit_int_eq_self) simp_all
  finally have pos: "\<not> (?e + 1 \<le>s 0)"
    using nonneg by (simp add: word_sle_eq)
  show ?thesis
    using pos by (simp add: generateRandomNumber_def workload_def Let_def word_sle_eq word_sless_alt)
qed

section \<open>What a successful seal produces\<close>

lemma aes_NewCipher_Inr: "aes_NewCipher k = Inr b \<Longrightarrow> b = k \<and> (length k = 16 \<or> length k = 24 \<or> length k = 32)"
  by (auto simp add: aes_NewCipher_def Let_def split: if_splits)

lemma sealContainer_success:
  assumes "sealContainer L E p pw = (Done (Inr c), t)"
  shows "\<exists>bs bi iters dk.
      salt_read E = Some bs \<and> iv_read E = Some bi \<and> generateRandomNumber L E = Done iters
    \<and> dk = pbkdf2_Key L (bytes_of_string pw) (map bs [0..<12]) iters
    \<and> (length dk = 16 \<or> length dk = 24 \<or> length dk = 32)
    \<and> c = \<lparr>ContainerMeta = \<lparr>Version = ''v1.0''\<rparr>,
           DeriveInfo = \<lparr>Salt = hex_EncodeToString (map bs [0..<12]), Iters = iters\<rparr>,
           EncryptionInfo = \<lparr>IV = hex_EncodeToString (map bi [0..<16])\<rparr>,
           ContainedData =
             \<lparr>EncryptedData = hex_EncodeToString
                (replicate 16 0 @ xor_stream (ctr_keystream L dk (map bi [0..<16])) (bytes_of_string p)),
              HMAC = hex_EncodeToString (sha256_Sum256 L (bytes_of_string p))\<rparr>\<rparr>
    \<and> t = [CallSum256, CallPBKDF2 iters, CallNewCipher, CallNewCTR, CallXORKeyStream 16 (length p)]"
  using assms
  by (auto simp add: sealContainer_def generateRandomBytes_def saltLen_def ivLen_def Let_def
        cipher_NewCTR_def XORKeyStream_def aes_BlockSize_def length_bytes_of_string
        SetContainedData_def SetEncryptionInfo_def SetDeriveInfo_def SetContainerMeta_def
        zeroContainer_def
      dest!: aes_NewCipher_Inr
      split: sum.splits exec.splits option.splits if_splits)

lemma CreateContainer_success:
  assumes "fst (CreateContainer L E p pw) = Done (r, None)"
  shows "\<exists>c t. sealContainer L E p pw = (Done (Inr c), t) \<and> json_Marshal L c = Inr r"
  using assms
  by (auto simp add: CreateContainer_def split: prod.splits sum.splits exec.splits)

lemma hextable_digits: "set hextable \<subseteq> Collect is_hex_digit"
  by (auto simp add: hextable_def is_hex_digit_def)

lemma hex_all_digits: "list_all is_hex_digit (hex_EncodeToString bs)"
  using hex_chars[of bs] hextable_digits by (auto simp add: list_all_iff)

text \<open>
  Claim C9. The text returned by a successful \<^verbatim>\<open>CreateContainer\<close> is the
  serialisation of a record whose version is \<^verbatim>\<open>v1.0\<close>, whose salt is 24 hexadecimal
  digits (12 bytes), whose IV is 32 hexadecimal digits (16 bytes) and whose digest is 64
  hexadecimal digits (32 bytes). \<^verbatim>\<open>sha256.Sum256\<close> returns a \<^verbatim>\<open>[32]byte\<close>; that is
  the second premise.
\<close>

theorem sealed_record_shape:
  assumes "fst (CreateContainer L E p pw) = Done (r, None)"
    and "length (sha256_Sum256 L (bytes_of_string p)) = 32"
  shows "\<exists>c salt iv digest. json_Marshal L c = Inr r
     \<and> Version (ContainerMeta c) = ''v1.0''
     \<and> length (Salt (DeriveInfo c)) = 24 \<and> list_all is_hex_digit (Salt (DeriveInfo c))
     \<and> hex_DecodeString (Salt (DeriveInfo c)) = Inr salt \<and> length salt = 12
     \<and> length (IV (EncryptionInfo c)) = 32 \<and> list_all is_hex_digit (IV (EncryptionInfo c))
     \<and> hex_DecodeString (IV (EncryptionInfo c)) = Inr iv \<and> length iv = 16
     \<and> length (HMAC (ContainedData c)) = 64 \<and> list_all is_hex_digit (HMAC (ContainedData c))
     \<and> hex_DecodeString (HMAC (ContainedData c)) = Inr digest \<and> length digest = 32"
proof -
  from CreateContainer_success[OF assms(1)] obtain c t
    where s: "sealContainer L E p pw = (Done (Inr c), t)" and m: "json_Marshal L c = Inr r"
    by blast
  from sealContainer_success[OF s] assms(2) m show ?thesis
    by (auto simp add: hex_length hex_all_digits hex_roundtrip)
qed

text \<open>
  Claim C7. In the record serialised by a successful \<^verbatim>\<open>CreateContainer\<close> the payload
  has \<open>16 + len(plaintext)\<close> bytes; its first 16 bytes are zero; the bytes from
  position 16 on are the plaintext XOR the key stream; and the only call of
  \<^verbatim>\<open>XORKeyStream\<close> covers the positions from 16 on, \<open>len(plaintext)\<close> of them.
\<close>

theorem payload_layout:
  assumes "fst (CreateContainer L E p pw) = Done (r, None)"
  shows "\<exists>c salt iv payload. json_Marshal L c = Inr r
     \<and> hex_DecodeString (Salt (DeriveInfo c)) = Inr salt
     \<and> hex_DecodeString (IV (EncryptionInfo c)) = Inr iv
     \<and> hex_DecodeString (EncryptedData (ContainedData c)) = Inr payload
     \<and> length payload = aes_BlockSize + length p
     \<and> take aes_BlockSize payload = replicate aes_BlockSize 0
     \<and> drop aes_BlockSize payload =
         xor_stream (ctr_keystream L
            (pbkdf2_Key L (bytes_of_string pw) salt (Iters (DeriveInfo c))) iv) (bytes_of_string p)
     \<and> snd (CreateContainer L E p pw) =
         [CallSum256, CallPBKDF2 (Iters (DeriveInfo c)), CallNewCipher, CallNewCTR,
          CallXORKeyStream aes_BlockSize (length p)]"
proof -
  from CreateContainer_success[OF assms(1)] obtain c t
    where s: "sealContainer L E p pw = (Done (Inr c), t)" and m: "json_Marshal L c = Inr r"
    by blast
  have tr: "snd (CreateContainer L E p pw) = t"
    by (simp add: CreateContainer_def s m)
  from sealContainer_success[OF s] m tr show ?thesis
    by (auto simp add: hex_roundtrip aes_BlockSize_def length_xor_stream length_bytes_of_string)
qed

lemma open_sealed:
  assumes s: "sealContainer L E p pw = (Done (Inr c), t)"
  shows "fst (openContainer L c pw) = Done (p, None)"
proof -
  from sealContainer_success[OF s] obtain bs bi iters dk where
    dk: "dk = pbkdf2_Key L (bytes_of_string pw) (map bs [0..<12]) iters"
    and len: "length dk = 16 \<or> length dk = 24 \<or> length dk = 32"
    and c: "c = \<lparr>ContainerMeta = \<lparr>Version = ''v1.0''\<rparr>,
           DeriveInfo = \<lparr>Salt = hex_EncodeToString (map bs [0..<12]), Iters = iters\<rparr>,
           EncryptionInfo = \<lparr>IV = hex_EncodeToString (map bi [0..<16])\<rparr>,
           ContainedData =
             \<lparr>EncryptedData = hex_EncodeToString
                (replicate 16 0 @ xor_stream (ctr_keystream L dk (map bi [0..<16])) (bytes_of_string p)),
              HMAC = hex_EncodeToString (sha256_Sum256 L (bytes_of_string p))\<rparr>\<rparr>"
    by blast
  have d1: "hex_DecodeString (Salt (DeriveInfo c)) = Inr (map bs [0..<12])"
    by (simp add: c hex_roundtrip)
  have d2: "hex_DecodeString (EncryptedData (ContainedData c)) =
      Inr (replicate 16 0 @ xor_stream (ctr_keystream L dk (map bi [0..<16])) (bytes_of_string p))"
    by (simp add: c hex_roundtrip)
  have d3: "hex_DecodeString (IV (EncryptionInfo c)) = Inr (map bi [0..<16])"
    by (simp add: c hex_roundtrip)
  have it: "Iters (DeriveInfo c) = iters" and h: "HMAC (ContainedData c) = hex_EncodeToString (sha256_Sum256 L (bytes_of_string p))"
    by (simp_all add: c)
  show ?thesis
    using len
    by (simp add: openContainer_decoded[OF d1 d2 d3] it h dk[symmetric] Let_def
          xor_stream_twice string_bytes_roundtrip)
qed

text \<open>
  Claim C1. When \<^verbatim>\<open>CreateContainer\<close> succeeds on plaintext \<open>p\<close> and password
  \<open>pw\<close> and returns \<open>r\<close>, then \<^verbatim>\<open>DecryptContainer\<close> on \<open>r\<close> and \<open>pw\<close>
  succeeds and returns exactly \<open>p\<close>, given that the JSON library reads \<open>r\<close> back as
  the record it was written from.
\<close>

theorem seal_open_roundtrip:
  assumes "fst (CreateContainer L E p pw) = Done (r, None)"
    and "reads_back L E p pw r"
  shows "fst (DecryptContainer L r pw) = Done (p, None)"
proof -
  from CreateContainer_success[OF assms(1)] obtain c t
    where s: "sealContainer L E p pw = (Done (Inr c), t)" by blast
  with assms(2) have u: "json_Unmarshal L r = Inr c"
    by (simp add: reads_back_def)
  show ?thesis
    by (simp add: DecryptContainer_parsed[OF u] open_sealed[OF s])
qed

section \<open>Tampering, short payloads and a zero iteration count\<close>

lemma demo_seal:
  "sealContainer demo_libs demo_env ''hi'' ''pw'' =
     (Done (Inr demo_sealed),
      [CallSum256, CallPBKDF2 5000, CallNewCipher, CallNewCTR, CallXORKeyStream 16 2])"
  by code_simp

lemma demo_create:
  "fst (CreateContainer demo_libs demo_env ''hi'' ''pw'') = Done (demo_sealed_json, None)"
  by code_simp

lemma demo_parse: "json_Unmarshal demo_libs demo_sealed_json = Inr demo_sealed"
  by code_simp

lemma set_payload: "hex_DecodeString (EncryptedData (ContainedData c)) = Inr enc \<Longrightarrow>
   hex_DecodeString (EncryptedData (ContainedData (c\<lparr>ContainedData := (ContainedData c)\<lparr>EncryptedData := hex_EncodeToString enc'\<rparr>\<rparr>))) = Inr enc'"
  by (simp add: hex_roundtrip)

lemma open_tampered_payload:
  assumes s: "sealContainer L E p pw = (Done (Inr c), t)"
    and pl: "hex_DecodeString (EncryptedData (ContainedData c)) = Inr payload"
  shows "fst (openContainer L
            (c\<lparr>ContainedData := (ContainedData c)\<lparr>EncryptedData := hex_EncodeToString (flip_byte i m payload)\<rparr>\<rparr>) pw)
         = (let plain = flip_byte (i - 16) m (bytes_of_string p) in
            if i < 16 then Done (p, None)
            else if hex_EncodeToString (sha256_Sum256 L plain) \<noteq> hex_EncodeToString (sha256_Sum256 L (bytes_of_string p))
              then Done ([], Some (ErrorsNew ''HMAC mismatch''))
              else Done (string_of_bytes plain, None))"
proof -
  from sealContainer_success[OF s] obtain bs bi iters dk where
    dk: "dk = pbkdf2_Key L (bytes_of_string pw) (map bs [0..<12]) iters"
    and len: "length dk = 16 \<or> length dk = 24 \<or> length dk = 32"
    and c: "c = \<lparr>ContainerMeta = \<lparr>Version = ''v1.0''\<rparr>,
           DeriveInfo = \<lparr>Salt = hex_EncodeToString (map bs [0..<12]), Iters = iters\<rparr>,
           EncryptionInfo = \<lparr>IV = hex_EncodeToString (map bi [0..<16])\<rparr>,
           ContainedData =
             \<lparr>EncryptedData = hex_EncodeToString
                (replicate 16 0 @ xor_stream (ctr_keystream L dk (map bi [0..<16])) (bytes_of_string p)),
              HMAC = hex_EncodeToString (sha256_Sum256 L (bytes_of_string p))\<rparr>\<rparr>"
    by blast
  let ?st = "ctr_keystream L dk (map bi [0..<16])"
  let ?c' = "c\<lparr>ContainedData := (ContainedData c)\<lparr>EncryptedData := hex_EncodeToString (flip_byte i m payload)\<rparr>\<rparr>"
  have payload: "payload = replicate 16 0 @ xor_stream ?st (bytes_of_string p)"
    using pl by (simp add: c hex_roundtrip)
  have d1: "hex_DecodeString (Salt (DeriveInfo ?c')) = Inr (map bs [0..<12])"
    by (simp add: c hex_roundtrip)
  have d2: "hex_DecodeString (EncryptedData (ContainedData ?c')) = Inr (flip_byte i m payload)"
    by (simp add: hex_roundtrip)
  have d3: "hex_DecodeString (IV (EncryptionInfo ?c')) = Inr (map bi [0..<16])"
    by (simp add: c hex_roundtrip)
  have it: "Iters (DeriveInfo c) = iters"
    and h: "HMAC (ContainedData c) = hex_EncodeToString (sha256_Sum256 L (bytes_of_string p))"
    by (simp_all add: c)
  have lenf: "length (flip_byte i m payload) = 16 + length p"
    by (simp add: flip_byte_def payload length_xor_stream length_bytes_of_string)
  have dropf: "drop 16 (flip_byte i m payload) =
      (if i < 16 then xor_stream ?st (bytes_of_string p)
       else flip_byte (i - 16) m (xor_stream ?st (bytes_of_string p)))"
    by (auto simp add: flip_byte_def payload drop_update_cancel list_update_append nth_append
          drop_update_swap)
  show ?thesis
    using len
    by (simp add: openContainer_decoded[OF d1 d2 d3] it h dk[symmetric] Let_def lenf dropf
          xor_stream_twice string_bytes_roundtrip xor_stream_flip[symmetric])
qed

lemma flip_byte_neq: "i < length bs \<Longrightarrow> m \<noteq> 0 \<Longrightarrow> flip_byte i m bs \<noteq> bs"
proof
  assume a: "i < length bs" "m \<noteq> 0" "flip_byte i m bs = bs"
  then have "flip_byte i m bs ! i = bs ! i" by simp
  with a(1) have "(bs ! i) XOR m = bs ! i" by (simp add: flip_byte_def)
  then have "((bs ! i) XOR (bs ! i)) XOR m = (bs ! i) XOR (bs ! i)"
    by (metis xor.assoc xor.commute)
  with a(2) show False by simp
qed

lemma open_tampered_digest:
  assumes s: "sealContainer L E p pw = (Done (Inr c), t)"
    and h': "h' \<noteq> HMAC (ContainedData c)"
  shows "fst (openContainer L (c\<lparr>ContainedData := (ContainedData c)\<lparr>HMAC := h'\<rparr>\<rparr>) pw)
         = Done ([], Some (ErrorsNew ''HMAC mismatch''))"
proof -
  from sealContainer_success[OF s] obtain bs bi iters dk where
    dk: "dk = pbkdf2_Key L (bytes_of_string pw) (map bs [0..<12]) iters"
    and len: "length dk = 16 \<or> length dk = 24 \<or> length dk = 32"
    and c: "c = \<lparr>ContainerMeta = \<lparr>Version = ''v1.0''\<rparr>,
           DeriveInfo = \<lparr>Salt = hex_EncodeToString (map bs [0..<12]), Iters = iters\<rparr>,
           EncryptionInfo = \<lparr>IV = hex_EncodeToString (map bi [0..<16])\<rparr>,
           ContainedData =
             \<lparr>EncryptedData = hex_EncodeToString
                (replicate 16 0 @ xor_stream (ctr_keystream L dk (map bi [0..<16])) (bytes_of_string p)),
              HMAC = hex_EncodeToString (sha256_Sum256 L (bytes_of_string p))\<rparr>\<rparr>"
    by blast
  let ?c' = "c\<lparr>ContainedData := (ContainedData c)\<lparr>HMAC := h'\<rparr>\<rparr>"
  have d1: "hex_DecodeString (Salt (DeriveInfo ?c')) = Inr (map bs [0..<12])"
    by (simp add: c hex_roundtrip)
  have d2: "hex_DecodeString (EncryptedData (ContainedData ?c')) =
      Inr (replicate 16 0 @ xor_stream (ctr_keystream L dk (map bi [0..<16])) (bytes_of_string p))"
    by (simp add: c hex_roundtrip)
  have d3: "hex_DecodeString (IV (EncryptionInfo ?c')) = Inr (map bi [0..<16])"
    by (simp add: c hex_roundtrip)
  have it: "Iters (DeriveInfo c) = iters"
    and h: "HMAC (ContainedData c) = hex_EncodeToString (sha256_Sum256 L (bytes_of_string p))"
    by (simp_all add: c)
  show ?thesis
    using len h'
    by (simp add: openContainer_decoded[OF d1 d2 d3] it h dk[symmetric] Let_def
          xor_stream_twice)
qed

text \<open>
  Claim C2, as the code has it. For a sealed record: changing bits of any byte of the
  stored digest makes \<^verbatim>\<open>DecryptContainer\<close> fail with \<^verbatim>\<open>HMAC mismatch\<close>; changing
  bits of a payload byte at position 16 or later does so whenever the digest of the
  changed plaintext differs from the digest of the original; changing bits of one of the
  leading 16 payload bytes is not noticed, and the original plaintext is returned.
\<close>

theorem tampering_detected:
  assumes seal: "sealContainer L E p pw = (Done (Inr c), t)"
    and payload: "hex_DecodeString (EncryptedData (ContainedData c)) = Inr payload"
    and digest: "hex_DecodeString (HMAC (ContainedData c)) = Inr digest"
    and mask: "m \<noteq> 0"
  shows "(i < length digest \<and>
          json_Unmarshal L j = Inr (c\<lparr>ContainedData := (ContainedData c)
                \<lparr>HMAC := hex_EncodeToString (flip_byte i m digest)\<rparr>\<rparr>)
          \<longrightarrow> fst (DecryptContainer L j pw) = Done ([], Some (ErrorsNew ''HMAC mismatch'')))
       \<and> (aes_BlockSize \<le> i \<and> i < length payload \<and>
          json_Unmarshal L j = Inr (c\<lparr>ContainedData := (ContainedData c)
                \<lparr>EncryptedData := hex_EncodeToString (flip_byte i m payload)\<rparr>\<rparr>) \<and>
          sha256_Sum256 L (flip_byte (i - aes_BlockSize) m (bytes_of_string p))
            \<noteq> sha256_Sum256 L (bytes_of_string p)
          \<longrightarrow> fst (DecryptContainer L j pw) = Done ([], Some (ErrorsNew ''HMAC mismatch'')))
       \<and> (i < aes_BlockSize \<and>
          json_Unmarshal L j = Inr (c\<lparr>ContainedData := (ContainedData c)
                \<lparr>EncryptedData := hex_EncodeToString (flip_byte i m payload)\<rparr>\<rparr>)
          \<longrightarrow> fst (DecryptContainer L j pw) = Done (p, None))"
proof (intro conjI impI)
  assume a: "i < length digest \<and>
          json_Unmarshal L j = Inr (c\<lparr>ContainedData := (ContainedData c)
                \<lparr>HMAC := hex_EncodeToString (flip_byte i m digest)\<rparr>\<rparr>)"
  from sealContainer_success[OF seal]
  have "HMAC (ContainedData c) = hex_EncodeToString (sha256_Sum256 L (bytes_of_string p))"
    by auto
  with digest have hd: "HMAC (ContainedData c) = hex_EncodeToString digest"
    by (simp add: hex_roundtrip)
  have "hex_EncodeToString (flip_byte i m digest) \<noteq> HMAC (ContainedData c)"
    using a mask flip_byte_neq[of i digest m] by (auto simp add: hd dest: hex_inj)
  from open_tampered_digest[OF seal this] a
  show "fst (DecryptContainer L j pw) = Done ([], Some (ErrorsNew ''HMAC mismatch''))"
    by (simp add: DecryptContainer_def)
next
  assume a: "aes_BlockSize \<le> i \<and> i < length payload \<and>
          json_Unmarshal L j = Inr (c\<lparr>ContainedData := (ContainedData c)
                \<lparr>EncryptedData := hex_EncodeToString (flip_byte i m payload)\<rparr>\<rparr>) \<and>
          sha256_Sum256 L (flip_byte (i - aes_BlockSize) m (bytes_of_string p))
            \<noteq> sha256_Sum256 L (bytes_of_string p)"
  then have "hex_EncodeToString (sha256_Sum256 L (flip_byte (i - 16) m (bytes_of_string p)))
            \<noteq> hex_EncodeToString (sha256_Sum256 L (bytes_of_string p))"
    by (auto simp add: aes_BlockSize_def dest: hex_inj)
  with a open_tampered_payload[OF seal payload, of i m]
  show "fst (DecryptContainer L j pw) = Done ([], Some (ErrorsNew ''HMAC mismatch''))"
    by (simp add: DecryptContainer_def aes_BlockSize_def Let_def)
next
  assume a: "i < aes_BlockSize \<and>
          json_Unmarshal L j = Inr (c\<lparr>ContainedData := (ContainedData c)
                \<lparr>EncryptedData := hex_EncodeToString (flip_byte i m payload)\<rparr>\<rparr>)"
  with open_tampered_payload[OF seal payload, of i m]
  show "fst (DecryptContainer L j pw) = Done (p, None)"
    by (simp add: DecryptContainer_def aes_BlockSize_def Let_def)
qed

text \<open>The panic does not depend on the instance: any payload below 16 bytes gives it.\<close>

lemma short_payload_general:
  assumes "json_Unmarshal L j = Inr c"
    and "hex_DecodeString (Salt (DeriveInfo c)) = Inr salt"
    and "hex_DecodeString (EncryptedData (ContainedData c)) = Inr enc"
    and "hex_DecodeString (IV (EncryptionInfo c)) = Inr iv"
    and "length (pbkdf2_Key L (bytes_of_string pw) salt (Iters (DeriveInfo c))) = 32"
    and "length enc < aes_BlockSize"
  shows "DecryptContainer L j pw =
           (Panic MakesliceLenOutOfRange, [CallPBKDF2 (Iters (DeriveInfo c)), CallNewCipher])"
  using assms(5,6)
  by (simp add: DecryptContainer_parsed[OF assms(1)] openContainer_decoded[OF assms(2-4)]
        Let_def aes_BlockSize_def)

text \<open>
  Claim C3 on the code. For the text \<^verbatim>\<open>{}\<close> (every field missing) and for a record
  whose payload decodes to 15 bytes, \<^verbatim>\<open>DecryptContainer\<close> does not return an error:
  it runs \<^verbatim>\<open>pbkdf2.Key\<close> and \<^verbatim>\<open>aes.NewCipher\<close> and then panics in \<^verbatim>\<open>make\<close>.
\<close>

theorem short_payload_panics:
  "DecryptContainer demo_libs ''{}'' ''pw'' =
     (Panic MakesliceLenOutOfRange, [CallPBKDF2 0, CallNewCipher])
   \<and> DecryptContainer demo_libs demo_short_json ''pw'' =
     (Panic MakesliceLenOutOfRange, [CallPBKDF2 5000, CallNewCipher])"
  by code_simp

text \<open>
  Claim C4, as the code has it. A record whose iteration count is zero is not rejected:
  key derivation is run with the count 0, and when the rest of the record is well formed
  and the digest matches, \<^verbatim>\<open>DecryptContainer\<close> returns the decrypted bytes without
  error.
\<close>

theorem zero_iterations_processed:
  assumes "json_Unmarshal L j = Inr c"
    and "Iters (DeriveInfo c) = 0"
    and "hex_DecodeString (Salt (DeriveInfo c)) = Inr salt"
    and "hex_DecodeString (EncryptedData (ContainedData c)) = Inr enc"
    and "hex_DecodeString (IV (EncryptionInfo c)) = Inr iv"
    and "aes_NewCipher (pbkdf2_Key L (bytes_of_string pw) salt 0) = Inr block"
    and "aes_BlockSize \<le> length enc"
    and "length iv = aes_BlockSize"
    and "decrypted = xor_stream (ctr_keystream L block iv) (drop aes_BlockSize enc)"
    and "hex_EncodeToString (sha256_Sum256 L decrypted) = HMAC (ContainedData c)"
  shows "DecryptContainer L j pw =
           (Done (string_of_bytes decrypted, None),
            [CallPBKDF2 0, CallNewCipher, CallNewCTR,
             CallXORKeyStream aes_BlockSize (length enc - aes_BlockSize), CallSum256])"
  using assms(2,6-10)
  by (auto simp add: DecryptContainer_parsed[OF assms(1)] openContainer_decoded[OF assms(3-5)]
        Let_def aes_BlockSize_def dest!: aes_NewCipher_Inr)

text \<open>
  Claim C4 fails as stated: this record with \<^verbatim>\<open>Iters\<close> zero is opened, after a call
  of \<^verbatim>\<open>pbkdf2.Key\<close> with the count 0.
\<close>

theorem zero_iterations_opened:
  "json_Unmarshal demo_libs demo_iters0_json
      = Inr (demo_sealed\<lparr>DeriveInfo := (DeriveInfo demo_sealed)\<lparr>Iters := 0\<rparr>\<rparr>)
   \<and> DecryptContainer demo_libs demo_iters0_json ''pw'' =
       (Done (''hi'', None),
        [CallPBKDF2 0, CallNewCipher, CallNewCTR, CallXORKeyStream 16 2, CallSum256])"
  by code_simp

text \<open>
  Claim C2 fails as stated: with the first byte of the sealed payload changed from
  \<open>00\<close> to \<open>01\<close>, \<^verbatim>\<open>DecryptContainer\<close> returns the plaintext and no error.
\<close>

theorem prefix_flip_undetected:
  "sealContainer demo_libs demo_env ''hi'' ''pw'' =
     (Done (Inr demo_sealed),
      [CallSum256, CallPBKDF2 5000, CallNewCipher, CallNewCTR, CallXORKeyStream 16 2])
   \<and> hex_DecodeString (EncryptedData (ContainedData demo_sealed)) =
       Inr [0,0,0,0,0,0,0,0,0,0,0,0,0,0,0,0,0x2b,0x23]
   \<and> json_Unmarshal demo_libs demo_prefix_json =
       Inr (demo_sealed\<lparr>ContainedData := (ContainedData demo_sealed)
          \<lparr>EncryptedData := hex_EncodeToString
             (flip_byte 0 1 [0,0,0,0,0,0,0,0,0,0,0,0,0,0,0,0,0x2b,0x23])\<rparr>\<rparr>)
   \<and> fst (DecryptContainer demo_libs demo_prefix_json ''pw'') = Done (''hi'', None)
   \<and> fst (DecryptContainer demo_libs demo_prefix_json ''pw'')
       \<noteq> Done ([], Some (ErrorsNew ''HMAC mismatch''))"
  by code_simp

section \<open>The statements on the small instance\<close>

theorem seal_open_roundtrip_witness:
  "fst (CreateContainer demo_libs demo_env ''hi'' ''pw'') = Done (demo_sealed_json, None)
   \<and> reads_back demo_libs demo_env ''hi'' ''pw'' demo_sealed_json
   \<and> fst (DecryptContainer demo_libs demo_sealed_json ''pw'') = Done (''hi'', None)"
proof -
  have rb: "reads_back demo_libs demo_env ''hi'' ''pw'' demo_sealed_json"
    by (simp add: reads_back_def demo_seal demo_parse)
  show ?thesis
    using seal_open_roundtrip[OF demo_create rb] demo_create rb by simp
qed

theorem tampering_detected_witness:
  "sealContainer demo_libs demo_env ''hi'' ''pw'' =
     (Done (Inr demo_sealed),
      [CallSum256, CallPBKDF2 5000, CallNewCipher, CallNewCTR, CallXORKeyStream 16 2])
   \<and> fst (DecryptContainer demo_libs demo_digest_json ''pw'')
        = Done ([], Some (ErrorsNew ''HMAC mismatch''))
   \<and> fst (DecryptContainer demo_libs demo_payload_json ''pw'')
        = Done ([], Some (ErrorsNew ''HMAC mismatch''))
   \<and> fst (DecryptContainer demo_libs demo_prefix_json ''pw'') = Done (''hi'', None)"
proof -
  let ?payload = "[0,0,0,0,0,0,0,0,0,0,0,0,0,0,0,0,0x2b,0x23] :: byte list"
  let ?digest = "[0,0,0,0,0,0,0,0,0,0,0,0,0,0,0,0,0,0,0,0,0,0,0,0,0,0,0,0,0,0,0,0xd1] :: byte list"
  have pl: "hex_DecodeString (EncryptedData (ContainedData demo_sealed)) = Inr ?payload"
    by code_simp
  have dg: "hex_DecodeString (HMAC (ContainedData demo_sealed)) = Inr ?digest"
    by code_simp
  have m: "(1 :: byte) \<noteq> 0" by simp
  have j1: "json_Unmarshal demo_libs demo_digest_json =
      Inr (demo_sealed\<lparr>ContainedData := (ContainedData demo_sealed)
            \<lparr>HMAC := hex_EncodeToString (flip_byte 0 1 ?digest)\<rparr>\<rparr>)"
    by code_simp
  have j2: "json_Unmarshal demo_libs demo_payload_json =
      Inr (demo_sealed\<lparr>ContainedData := (ContainedData demo_sealed)
            \<lparr>EncryptedData := hex_EncodeToString (flip_byte 16 1 ?payload)\<rparr>\<rparr>)"
    by code_simp
  have j3: "json_Unmarshal demo_libs demo_prefix_json =
      Inr (demo_sealed\<lparr>ContainedData := (ContainedData demo_sealed)
            \<lparr>EncryptedData := hex_EncodeToString (flip_byte 0 1 ?payload)\<rparr>\<rparr>)"
    by code_simp
  have sh: "sha256_Sum256 demo_libs (flip_byte (16 - aes_BlockSize) 1 (bytes_of_string ''hi''))
      \<noteq> sha256_Sum256 demo_libs (bytes_of_string ''hi'')"
    by code_simp
  have r1: "fst (DecryptContainer demo_libs demo_digest_json ''pw'')
        = Done ([], Some (ErrorsNew ''HMAC mismatch''))"
    using tampering_detected[OF demo_seal pl dg m, of 0 demo_digest_json] j1 by simp
  have r2: "fst (DecryptContainer demo_libs demo_payload_json ''pw'')
        = Done ([], Some (ErrorsNew ''HMAC mismatch''))"
    using tampering_detected[OF demo_seal pl dg m, of 16 demo_payload_json] j2 sh
    by (simp add: aes_BlockSize_def)
  have r3: "fst (DecryptContainer demo_libs demo_prefix_json ''pw'') = Done (''hi'', None)"
    using tampering_detected[OF demo_seal pl dg m, of 0 demo_prefix_json] j3
    by (simp add: aes_BlockSize_def)
  show ?thesis using demo_seal r1 r2 r3 by simp
qed

theorem zero_iterations_processed_witness:
  "json_Unmarshal demo_libs demo_iters0_json
      = Inr (demo_sealed\<lparr>DeriveInfo := (DeriveInfo demo_sealed)\<lparr>Iters := 0\<rparr>\<rparr>)
   \<and> DecryptContainer demo_libs demo_iters0_json ''pw'' =
       (Done (''hi'', None),
        [CallPBKDF2 0, CallNewCipher, CallNewCTR, CallXORKeyStream 16 2, CallSum256])"
proof -
  let ?c = "demo_sealed\<lparr>DeriveInfo := (DeriveInfo demo_sealed)\<lparr>Iters := 0\<rparr>\<rparr>"
  let ?salt = "[1,2,3,4,5,6,7,8,9,10,11,12] :: byte list"
  let ?enc = "[0,0,0,0,0,0,0,0,0,0,0,0,0,0,0,0,0x2b,0x23] :: byte list"
  let ?iv = "[0,16,32,48,64,80,96,112,128,144,160,176,192,208,224,240] :: byte list"
  let ?block = "replicate 32 2 :: byte list"
  have u: "json_Unmarshal demo_libs demo_iters0_json = Inr ?c" by code_simp
  have z: "Iters (DeriveInfo ?c) = 0" by (simp add: demo_sealed_def)
  have d1: "hex_DecodeString (Salt (DeriveInfo ?c)) = Inr ?salt" by code_simp
  have d2: "hex_DecodeString (EncryptedData (ContainedData ?c)) = Inr ?enc" by code_simp
  have d3: "hex_DecodeString (IV (EncryptionInfo ?c)) = Inr ?iv" by code_simp
  have k: "aes_NewCipher (pbkdf2_Key demo_libs (bytes_of_string ''pw'') ?salt 0) = Inr ?block"
    by code_simp
  have l1: "aes_BlockSize \<le> length ?enc" by (simp add: aes_BlockSize_def)
  have l2: "length ?iv = aes_BlockSize" by (simp add: aes_BlockSize_def)
  have p: "bytes_of_string ''hi'' =
      xor_stream (ctr_keystream demo_libs ?block ?iv) (drop aes_BlockSize ?enc)"
    by code_simp
  have h: "hex_EncodeToString (sha256_Sum256 demo_libs (bytes_of_string ''hi''))
      = HMAC (ContainedData ?c)"
    by code_simp
  have len: "length ?enc - aes_BlockSize = 2" by (simp add: aes_BlockSize_def)
  show ?thesis
    using zero_iterations_processed[OF u z d1 d2 d3 k l1 l2 p h] u
    by (simp only: string_bytes_roundtrip len aes_BlockSize_def) simp
qed

theorem decode_error_before_crypto_witness:
  "json_Unmarshal demo_libs demo_badhex_json =
     Inr (demo_sealed\<lparr>EncryptionInfo := \<lparr>IV = ''0010203040506070809''\<rparr>,
            ContainedData := (ContainedData demo_sealed)
              \<lparr>EncryptedData := ''00000000000000000000000000000000zz63''\<rparr>\<rparr>)
   \<and> malformed_hex ''00000000000000000000000000000000zz63''
   \<and> malformed_hex ''0010203040506070809''
   \<and> (\<exists>e. is_decode_error e \<and>
          DecryptContainer demo_libs demo_badhex_json ''pw'' = (Done ([], Some e), []))"
proof -
  let ?c = "demo_sealed\<lparr>EncryptionInfo := \<lparr>IV = ''0010203040506070809''\<rparr>,
            ContainedData := (ContainedData demo_sealed)
              \<lparr>EncryptedData := ''00000000000000000000000000000000zz63''\<rparr>\<rparr>"
  have u: "json_Unmarshal demo_libs demo_badhex_json = Inr ?c" by code_simp
  have m1: "malformed_hex ''00000000000000000000000000000000zz63''" by code_simp
  have m2: "malformed_hex ''0010203040506070809''" by code_simp
  have b: "malformed_hex (Salt (DeriveInfo ?c)) \<or> malformed_hex (EncryptedData (ContainedData ?c))
      \<or> malformed_hex (IV (EncryptionInfo ?c))"
    using m1 by simp
  show ?thesis
    using decode_error_before_crypto[OF u b, of "''pw''"] u m1 m2 by simp
qed

theorem version_not_read_witness:
  "json_Unmarshal demo_libs demo_sealed_json = Inr demo_sealed
   \<and> json_Unmarshal demo_libs demo_relabelled_json
        = Inr (demo_sealed\<lparr>ContainerMeta := \<lparr>Version = ''v7.3''\<rparr>\<rparr>)
   \<and> DecryptContainer demo_libs demo_relabelled_json ''pw''
        = DecryptContainer demo_libs demo_sealed_json ''pw''"
proof -
  have u: "json_Unmarshal demo_libs demo_relabelled_json
        = Inr (demo_sealed\<lparr>ContainerMeta := \<lparr>Version = ''v7.3''\<rparr>\<rparr>)"
    by code_simp
  show ?thesis
    using version_not_read[OF demo_parse u, of "''pw''"] demo_parse u by simp
qed

theorem digest_comparison_witness:
  "fst (DecryptContainer demo_libs demo_sealed_json ''pw'') = Done (''hi'', None)
   \<and> fst (DecryptContainer demo_libs demo_sealed_json ''wrong'')
       = Done ([], Some (ErrorsNew ''HMAC mismatch''))"
proof -
  let ?salt = "[1,2,3,4,5,6,7,8,9,10,11,12] :: byte list"
  let ?enc = "[0,0,0,0,0,0,0,0,0,0,0,0,0,0,0,0,0x2b,0x23] :: byte list"
  let ?iv = "[0,16,32,48,64,80,96,112,128,144,160,176,192,208,224,240] :: byte list"
  have d1: "hex_DecodeString (Salt (DeriveInfo demo_sealed)) = Inr ?salt" by code_simp
  have d2: "hex_DecodeString (EncryptedData (ContainedData demo_sealed)) = Inr ?enc" by code_simp
  have d3: "hex_DecodeString (IV (EncryptionInfo demo_sealed)) = Inr ?iv" by code_simp
  have k: "aes_NewCipher (pbkdf2_Key demo_libs (bytes_of_string ''pw'') ?salt
              (Iters (DeriveInfo demo_sealed))) = Inr (replicate 32 2)"
    by code_simp
  have k': "aes_NewCipher (pbkdf2_Key demo_libs (bytes_of_string ''wrong'') ?salt
              (Iters (DeriveInfo demo_sealed))) = Inr (replicate 32 5)"
    by code_simp
  have l1: "aes_BlockSize \<le> length ?enc" by (simp add: aes_BlockSize_def)
  have l2: "length ?iv = aes_BlockSize" by (simp add: aes_BlockSize_def)
  have p: "bytes_of_string ''hi'' =
      xor_stream (ctr_keystream demo_libs (replicate 32 2) ?iv) (drop aes_BlockSize ?enc)"
    by code_simp
  have p': "[0x88, 0x89] =
      xor_stream (ctr_keystream demo_libs (replicate 32 5) ?iv) (drop aes_BlockSize ?enc)"
    by code_simp
  have h': "hex_EncodeToString (sha256_Sum256 demo_libs [0x88, 0x89])
      \<noteq> HMAC (ContainedData demo_sealed)"
    by code_simp
  have h: "hex_EncodeToString (sha256_Sum256 demo_libs (bytes_of_string ''hi''))
      = HMAC (ContainedData demo_sealed)"
    by code_simp
  show ?thesis
    using digest_comparison[OF demo_parse d1 d2 d3 k l1 l2 p]
      digest_comparison[OF demo_parse d1 d2 d3 k' l1 l2 p'] h h'
    by (simp add: string_bytes_roundtrip)
qed

theorem calibration_floor_witness:
  "0 \<le>s elapsed_Nanoseconds demo_env
   \<and> elapsed_Nanoseconds demo_env \<noteq> 0x7FFFFFFFFFFFFFFF
   \<and> (\<exists>k. generateRandomNumber demo_libs demo_env = Done k \<and> 4096 \<le>s k)"
proof -
  have a: "0 \<le>s elapsed_Nanoseconds demo_env" by (simp add: demo_env_def word_sle_eq)
  have b: "elapsed_Nanoseconds demo_env \<noteq> 0x7FFFFFFFFFFFFFFF" by (simp add: demo_env_def)
  show ?thesis using calibration_floor[OF a b, of demo_libs] a b by simp
qed

theorem sealed_record_shape_witness:
  "fst (CreateContainer demo_libs demo_env ''hi'' ''pw'') = Done (demo_sealed_json, None)
   \<and> length (sha256_Sum256 demo_libs (bytes_of_string ''hi'')) = 32
   \<and> (\<exists>c salt iv digest. json_Marshal demo_libs c = Inr demo_sealed_json
     \<and> Version (ContainerMeta c) = ''v1.0''
     \<and> length (Salt (DeriveInfo c)) = 24 \<and> list_all is_hex_digit (Salt (DeriveInfo c))
     \<and> hex_DecodeString (Salt (DeriveInfo c)) = Inr salt \<and> length salt = 12
     \<and> length (IV (EncryptionInfo c)) = 32 \<and> list_all is_hex_digit (IV (EncryptionInfo c))
     \<and> hex_DecodeString (IV (EncryptionInfo c)) = Inr iv \<and> length iv = 16
     \<and> length (HMAC (ContainedData c)) = 64 \<and> list_all is_hex_digit (HMAC (ContainedData c))
     \<and> hex_DecodeString (HMAC (ContainedData c)) = Inr digest \<and> length digest = 32)"
proof -
  have l: "length (sha256_Sum256 demo_libs (bytes_of_string ''hi'')) = 32" by code_simp
  show ?thesis
    using sealed_record_shape[OF demo_create l] demo_create l by simp
qed

theorem payload_layout_witness:
  "fst (CreateContainer demo_libs demo_env ''hi'' ''pw'') = Done (demo_sealed_json, None)
   \<and> (\<exists>c salt iv payload. json_Marshal demo_libs c = Inr demo_sealed_json
     \<and> hex_DecodeString (Salt (DeriveInfo c)) = Inr salt
     \<and> hex_DecodeString (IV (EncryptionInfo c)) = Inr iv
     \<and> hex_DecodeString (EncryptedData (ContainedData c)) = Inr payload
     \<and> length payload = aes_BlockSize + length ''hi''
     \<and> take aes_BlockSize payload = replicate aes_BlockSize 0
     \<and> drop aes_BlockSize payload =
         xor_stream (ctr_keystream demo_libs
            (pbkdf2_Key demo_libs (bytes_of_string ''pw'') salt (Iters (DeriveInfo c))) iv)
            (bytes_of_string ''hi'')
     \<and> snd (CreateContainer demo_libs demo_env ''hi'' ''pw'') =
         [CallSum256, CallPBKDF2 (Iters (DeriveInfo c)), CallNewCipher, CallNewCTR,
          CallXORKeyStream aes_BlockSize (length ''hi'')])"
  using payload_layout[OF demo_create] demo_create by simp

end
